theory Spec2Isabelle
  imports Complex_Main
begin

section \<open>Python values, exceptions and builtins used by \<^verbatim>\<open>utils/report_tools.py\<close>\<close>

text \<open>
  The functions of \<^verbatim>\<open>report_tools.py\<close> receive untyped Python values: a week or a
  season arrives as an \<^verbatim>\<open>int\<close>, as a \<^verbatim>\<open>str\<close> (from the configuration file) or as
  \<^verbatim>\<open>None\<close>. Exceptions and \<^verbatim>\<open>sys.exit\<close> are values of the type \<open>error\<close>; a function
  that can raise returns \<open>error + 'a\<close>, \<open>Inl\<close> being the exception.
\<close>

datatype pyval = PNone | PInt int | PStr string

datatype error =
    ValueError string
  | TypeError
  | AttributeError
  | EOFError
  | SystemExit string

text \<open>Sequencing of fallible steps: the first exception ends the computation.\<close>

definition and_then :: "error + 'a \<Rightarrow> ('a \<Rightarrow> error + 'b) \<Rightarrow> error + 'b" where
  "and_then r f = (case r of Inl e \<Rightarrow> Inl e | Inr v \<Rightarrow> f v)"

text \<open>Python truth value of \<^verbatim>\<open>if week:\<close>.\<close>

fun truthy :: "pyval \<Rightarrow> bool" where
  "truthy PNone = False"
| "truthy (PInt n) = (n \<noteq> 0)"
| "truthy (PStr s) = (s \<noteq> [])"

definition dq :: char where
  "dq = char_of (34::nat)"

definition sq :: char where
  "sq = char_of (39::nat)"

subsection \<open>\<^verbatim>\<open>int(x)\<close>\<close>

definition is_digit :: "char \<Rightarrow> bool" where
  "is_digit c = (48 \<le> (of_char c :: nat) \<and> (of_char c :: nat) \<le> 57)"

definition digit_val :: "char \<Rightarrow> nat" where
  "digit_val c = (of_char c :: nat) - 48"

definition is_space :: "char \<Rightarrow> bool" where
  "is_space c = (let n = (of_char c :: nat) in (9 \<le> n \<and> n \<le> 13) \<or> (28 \<le> n \<and> n \<le> 32))"

definition strip :: "string \<Rightarrow> string" where
  "strip s = rev (dropWhile is_space (rev (dropWhile is_space s)))"

text \<open>
  Decimal digits, with single underscores allowed between two digits (\<^verbatim>\<open>"1_000"\<close>).
  The flag says whether the previous character was a digit.
\<close>

fun parse_digits :: "nat \<Rightarrow> bool \<Rightarrow> string \<Rightarrow> nat option" where
  "parse_digits acc prev [] = (if prev then Some acc else None)"
| "parse_digits acc prev (c # cs) =
     (if is_digit c then parse_digits (10 * acc + digit_val c) True cs
      else if c = CHR ''_'' \<and> prev then parse_digits acc False cs
      else None)"

definition invalid_literal :: "string \<Rightarrow> error" where
  "invalid_literal s = ValueError (''invalid literal for int() with base 10: '' @ [sq] @ s @ [sq])"

definition int_of_str :: "string \<Rightarrow> error + int" where
  "int_of_str s =
     (case strip s of
        [] \<Rightarrow> Inl (invalid_literal s)
      | c # cs \<Rightarrow>
          (if c = CHR ''-'' then
             (case parse_digits 0 False cs of
                None \<Rightarrow> Inl (invalid_literal s) | Some n \<Rightarrow> Inr (- int n))
           else if c = CHR ''+'' then
             (case parse_digits 0 False cs of
                None \<Rightarrow> Inl (invalid_literal s) | Some n \<Rightarrow> Inr (int n))
           else
             (case parse_digits 0 False (c # cs) of
                None \<Rightarrow> Inl (invalid_literal s) | Some n \<Rightarrow> Inr (int n))))"

fun py_int :: "pyval \<Rightarrow> error + int" where
  "py_int PNone = Inl TypeError"
| "py_int (PInt n) = Inr n"
| "py_int (PStr s) = int_of_str s"

subsection \<open>\<^verbatim>\<open>str(x)\<close>\<close>

fun str_of_nat :: "nat \<Rightarrow> string" where
  "str_of_nat n =
     (if n < 10 then [char_of (48 + n)]
      else str_of_nat (n div 10) @ [char_of (48 + n mod 10)])"

definition str_of_int :: "int \<Rightarrow> string" where
  "str_of_int i = (if i < 0 then CHR ''-'' # str_of_nat (nat (- i)) else str_of_nat (nat i))"

fun py_str :: "pyval \<Rightarrow> string" where
  "py_str PNone = ''None''"
| "py_str (PInt n) = str_of_int n"
| "py_str (PStr s) = s"

subsection \<open>\<^verbatim>\<open>round(x, 2)\<close> and \<^verbatim>\<open>sum(xs)\<close>\<close>

text \<open>
  Point totals are Python floats. They are modelled as exact real numbers: the model
  has the arithmetic of the decimal values and leaves the binary representation error of
  a float out. \<^verbatim>\<open>round(x, 2)\<close> rounds to the nearest multiple of 0.01, a tie going to
  the even neighbour. \<^verbatim>\<open>sum\<close> adds from the left, starting at 0.
\<close>

definition round_half_even :: "real \<Rightarrow> int" where
  "round_half_even x =
     (let f = \<lfloor>x\<rfloor>; d = x - of_int f
      in if d < 1 / 2 then f
         else if 1 / 2 < d then f + 1
         else if even f then f else f + 1)"

definition py_round2 :: "real \<Rightarrow> real" where
  "py_round2 x = of_int (round_half_even (x * 100)) / 100"

definition py_sum :: "'a::monoid_add list \<Rightarrow> 'a" where
  "py_sum xs = foldl (+) 0 xs"

section \<open>The canonical model: players, teams, leagues\<close>

text \<open>
  \<^verbatim>\<open>BasePlayer\<close>, \<^verbatim>\<open>BaseTeam\<close> and \<^verbatim>\<open>BaseLeague\<close> are declared in \<^verbatim>\<open>dao/base.py\<close>; the
  records below hold the attributes that \<^verbatim>\<open>report_tools.py\<close> reads and writes. The
  fields of a team carry the prefix \<open>team_\<close>, since a player has attributes of the same
  names. Values produced by external collaborators and only passed along (coaching
  efficiency, luck, records) have the type parameter \<open>'x\<close>.
\<close>

record player =
  first_name :: string
  last_name :: string
  full_name :: string
  nfl_team_abbr :: string
  primary_position :: string
  selected_position :: string
  points :: real
  bad_boy_crime :: string
  bad_boy_points :: int
  bad_boy_num_offenders :: int
  weight :: real
  tabbu :: real
  covid_risk :: int

record 'x team =
  team_id :: string
  team_name :: string
  team_roster :: "player list"
  team_points :: real
  team_home_field_advantage :: real
  team_bench_points :: real
  team_bad_boy_points :: int
  team_worst_offense :: "string option"
  team_num_offenders :: int
  team_worst_offense_score :: int
  team_total_weight :: real
  team_tabbu :: real
  team_total_covid_risk :: int
  team_positions_filled_active :: "string list"
  team_coaching_efficiency :: 'x
  team_optimal_points :: real
  team_luck :: "'x option"
  team_weekly_overall_record :: "'x option"
  team_record :: "'x option"

record league =
  data_dir :: string
  season :: pyval
  league_id :: pyval
  offline :: bool
  save_data :: bool
  bench_positions :: "string list"

section \<open>Configuration and metrics providers\<close>

text \<open>
  \<^verbatim>\<open>AppConfigParser\<close> is not part of the sources at hand. The configuration is the record of
  the options the functions read: the three \<^verbatim>\<open>getboolean("Report", ...)\<close> toggles and
  \<^verbatim>\<open>get("Settings", "week_for_report")\<close>, which is a string.
\<close>

record config =
  league_bad_boy_rankings :: bool
  league_beef_rankings :: bool
  league_covid_risk_rankings :: bool
  week_for_report :: string

text \<open>
  The metrics providers (\<^verbatim>\<open>BadBoyStats\<close>, \<^verbatim>\<open>BeefStats\<close>, \<^verbatim>\<open>CovidRisk\<close>, the coaching
  efficiency evaluator) are external: each is a record of its lookup methods, any function
  at all. \<^verbatim>\<open>metrics\<close> is a dictionary read with \<^verbatim>\<open>metrics.get(key)\<close>, which gives \<^verbatim>\<open>None\<close>
  for an absent key; calling a method on \<^verbatim>\<open>None\<close> raises \<^verbatim>\<open>AttributeError\<close>.
\<close>

record bad_boy_stats =
  get_player_bad_boy_crime :: "string \<Rightarrow> string \<Rightarrow> string \<Rightarrow> string \<Rightarrow> string"
  get_player_bad_boy_points :: "string \<Rightarrow> string \<Rightarrow> string \<Rightarrow> string \<Rightarrow> int"
  get_player_bad_boy_num_offenders :: "string \<Rightarrow> string \<Rightarrow> string \<Rightarrow> string \<Rightarrow> int"

record beef_stats =
  get_player_weight :: "string \<Rightarrow> string \<Rightarrow> string \<Rightarrow> real"
  get_player_tabbu :: "string \<Rightarrow> string \<Rightarrow> string \<Rightarrow> real"

record covid_risk_provider =
  get_player_covid_risk :: "string \<Rightarrow> string \<Rightarrow> string \<Rightarrow> int"

type_synonym 'x coaching_efficiency_evaluator =
  "string \<Rightarrow> player list \<Rightarrow> real \<Rightarrow> string list \<Rightarrow> int \<Rightarrow> string list \<Rightarrow> bool \<Rightarrow> 'x \<times> real"

record 'x metrics =
  m_bad_boy_stats :: "bad_boy_stats option"
  m_beef_stats :: "beef_stats option"
  m_covid_risk :: "covid_risk_provider option"
  m_coaching_efficiency :: "'x coaching_efficiency_evaluator option"
  m_luck :: "(string \<rightharpoonup> (string \<rightharpoonup> 'x)) option"
  m_records :: "(string \<rightharpoonup> 'x) option"

definition provider :: "'a option \<Rightarrow> error + 'a" where
  "provider m = (case m of None \<Rightarrow> Inl AttributeError | Some p \<Rightarrow> Inr p)"

section \<open>\<^verbatim>\<open>add_report_player_stats\<close>\<close>

definition reset_player :: "player \<Rightarrow> player" where
  "reset_player p =
     p\<lparr>bad_boy_crime := [], bad_boy_points := 0, bad_boy_num_offenders := 0,
       weight := 0, tabbu := 0, covid_risk := 0\<rparr>"

definition player_bad_boy :: "config \<Rightarrow> 'x metrics \<Rightarrow> player \<Rightarrow> error + player" where
  "player_bad_boy cfg metrics p =
     (if league_bad_boy_rankings cfg then
        and_then (provider (m_bad_boy_stats metrics)) (\<lambda>bb.
          Inr (p\<lparr>bad_boy_crime :=
                    get_player_bad_boy_crime bb (first_name p) (last_name p) (nfl_team_abbr p)
                      (primary_position p),
                  bad_boy_points :=
                    get_player_bad_boy_points bb (first_name p) (last_name p) (nfl_team_abbr p)
                      (primary_position p),
                  bad_boy_num_offenders :=
                    get_player_bad_boy_num_offenders bb (first_name p) (last_name p)
                      (nfl_team_abbr p) (primary_position p)\<rparr>))
      else Inr p)"

definition player_beef :: "config \<Rightarrow> 'x metrics \<Rightarrow> player \<Rightarrow> error + player" where
  "player_beef cfg metrics p =
     (if league_beef_rankings cfg then
        and_then (provider (m_beef_stats metrics)) (\<lambda>bf.
          Inr (p\<lparr>weight := get_player_weight bf (first_name p) (last_name p) (nfl_team_abbr p),
                  tabbu := get_player_tabbu bf (first_name p) (last_name p) (nfl_team_abbr p)\<rparr>))
      else Inr p)"

text \<open>
  \<^verbatim>\<open>config.getboolean(...) and int(season) >= 2020\<close>: \<^verbatim>\<open>int(season)\<close> is evaluated, and
  can raise, only when the toggle is on.
\<close>

definition covid_gate :: "config \<Rightarrow> pyval \<Rightarrow> error + bool" where
  "covid_gate cfg season_v =
     (if league_covid_risk_rankings cfg then
        and_then (py_int season_v) (\<lambda>s. Inr (2020 \<le> s))
      else Inr False)"

definition player_covid :: "config \<Rightarrow> pyval \<Rightarrow> 'x metrics \<Rightarrow> player \<Rightarrow> error + player" where
  "player_covid cfg season_v metrics p =
     and_then (covid_gate cfg season_v) (\<lambda>g.
       if g then
         and_then (provider (m_covid_risk metrics)) (\<lambda>cr.
           Inr (p\<lparr>covid_risk :=
                     get_player_covid_risk cr (full_name p) (nfl_team_abbr p)
                       (primary_position p)\<rparr>))
       else Inr p)"

definition add_report_player_stats ::
  "config \<Rightarrow> pyval \<Rightarrow> 'x metrics \<Rightarrow> player \<Rightarrow> string list \<Rightarrow> error + player" where
  "add_report_player_stats cfg season_v metrics p bench =
     (let p0 = reset_player p in
      if selected_position p0 \<notin> set bench then
        and_then (player_bad_boy cfg metrics p0) (\<lambda>p1.
        and_then (player_beef cfg metrics p1) (\<lambda>p2.
        player_covid cfg season_v metrics p2))
      else Inr p0)"


section \<open>\<^verbatim>\<open>add_report_team_stats\<close>\<close>

text \<open>
  The logger is the list of the warnings and errors written, in order (debug entries are
  left out). An entry carries the values its message interpolates.
\<close>

datatype log_entry =
    Warning_points_not_equal string real real
  | Error_platform_not_supported string
  | Error_file_does_not_exist "string list"

record metrics_calculator =
  decode_byte_string :: "string \<Rightarrow> string"

text \<open>
  \<^verbatim>\<open>for player in team.roster: add_report_player_stats(...)\<close> updates each player
  object in place; the roster afterwards is the list of the updated players.
\<close>

fun enrich_roster ::
  "config \<Rightarrow> pyval \<Rightarrow> 'x metrics \<Rightarrow> player list \<Rightarrow> string list \<Rightarrow> error + player list" where
  "enrich_roster cfg season_v metrics [] bench = Inr []"
| "enrich_roster cfg season_v metrics (p # ps) bench =
     and_then (add_report_player_stats cfg season_v metrics p bench) (\<lambda>p'.
     and_then (enrich_roster cfg season_v metrics ps bench) (\<lambda>ps'.
     Inr (p' # ps')))"

definition active_players :: "string list \<Rightarrow> player list \<Rightarrow> player list" where
  "active_players bench ps = filter (\<lambda>p. selected_position p \<notin> set bench) ps"

definition bench_players :: "string list \<Rightarrow> player list \<Rightarrow> player list" where
  "bench_players bench ps = filter (\<lambda>p. selected_position p \<in> set bench) ps"

definition starting_lineup_points :: "string list \<Rightarrow> 'x team \<Rightarrow> real" where
  "starting_lineup_points bench t =
     py_round2 (py_sum (map points (active_players bench (team_roster t))))"

definition points_check :: "string list \<Rightarrow> 'x team \<Rightarrow> log_entry list" where
  "points_check bench t =
     (if py_round2 (team_points t) \<noteq> starting_lineup_points bench t + team_home_field_advantage t
      then [Warning_points_not_equal (team_name t) (py_round2 (team_points t))
              (starting_lineup_points bench t)]
      else [])"

definition team_bench :: "string list \<Rightarrow> 'x team \<Rightarrow> 'x team" where
  "team_bench bench t =
     t\<lparr>team_bench_points := py_round2 (py_sum (map points (bench_players bench (team_roster t))))\<rparr>"

text \<open>One pass of the loop \<^verbatim>\<open>for p in team.roster\<close> of the bad-boy block.\<close>

definition bad_boy_step :: "string list \<Rightarrow> 'x team \<Rightarrow> player \<Rightarrow> 'x team" where
  "bad_boy_step bench t p =
     (if selected_position p \<notin> set bench then
        (if 0 < bad_boy_points p then
           (let t1 = t\<lparr>team_bad_boy_points := team_bad_boy_points t + bad_boy_points p\<rparr>;
                t2 = (if selected_position p = ''DEF''
                      then t1\<lparr>team_num_offenders := team_num_offenders t1 + bad_boy_num_offenders p\<rparr>
                      else t1\<lparr>team_num_offenders := team_num_offenders t1 + 1\<rparr>)
            in if team_worst_offense_score t2 < bad_boy_points p
               then t2\<lparr>team_worst_offense := Some (bad_boy_crime p),
                       team_worst_offense_score := bad_boy_points p\<rparr>
               else t2)
         else t)
      else t)"

definition team_bad_boy :: "config \<Rightarrow> string list \<Rightarrow> 'x team \<Rightarrow> 'x team" where
  "team_bad_boy cfg bench t =
     (if league_bad_boy_rankings cfg then
        foldl (bad_boy_step bench)
          (t\<lparr>team_bad_boy_points := 0, team_worst_offense := None, team_num_offenders := 0,
             team_worst_offense_score := 0\<rparr>)
          (team_roster t)
      else t)"

definition team_beef :: "config \<Rightarrow> string list \<Rightarrow> 'x team \<Rightarrow> 'x team" where
  "team_beef cfg bench t =
     (if league_beef_rankings cfg then
        t\<lparr>team_total_weight := py_sum (map weight (active_players bench (team_roster t))),
          team_tabbu := py_sum (map tabbu (active_players bench (team_roster t)))\<rparr>
      else t)"

definition team_covid :: "config \<Rightarrow> pyval \<Rightarrow> string list \<Rightarrow> 'x team \<Rightarrow> error + 'x team" where
  "team_covid cfg season_v bench t =
     and_then (covid_gate cfg season_v) (\<lambda>g.
       if g then
         Inr (t\<lparr>team_total_covid_risk :=
                   py_sum (map covid_risk (active_players bench (team_roster t)))\<rparr>)
       else Inr t)"

definition team_positions :: "string list \<Rightarrow> 'x team \<Rightarrow> 'x team" where
  "team_positions bench t =
     t\<lparr>team_positions_filled_active :=
         map selected_position (active_players bench (team_roster t))\<rparr>"

text \<open>
  The callee \<^verbatim>\<open>metrics.get("coaching_efficiency").execute_coaching_efficiency\<close> is looked
  up before its arguments, among them \<^verbatim>\<open>int(week_counter)\<close>, are evaluated.
\<close>

definition team_coaching ::
  "'x metrics \<Rightarrow> pyval \<Rightarrow> bool \<Rightarrow> string list \<Rightarrow> 'x team \<Rightarrow> error + 'x team" where
  "team_coaching metrics week_counter dq_ce inactive_players t =
     and_then (provider (m_coaching_efficiency metrics)) (\<lambda>execute_coaching_efficiency.
     and_then (py_int week_counter) (\<lambda>wk.
       (case execute_coaching_efficiency (team_name t) (team_roster t) (team_points t)
               (team_positions_filled_active t) wk inactive_players dq_ce of
          (ce, opt) \<Rightarrow> Inr (t\<lparr>team_coaching_efficiency := ce, team_optimal_points := opt\<rparr>))))"

definition team_luck_record :: "'x metrics \<Rightarrow> 'x team \<Rightarrow> error + 'x team" where
  "team_luck_record metrics t =
     and_then (provider (m_luck metrics)) (\<lambda>luck.
     and_then (provider (luck (team_id t))) (\<lambda>entry.
     and_then (provider (m_records metrics)) (\<lambda>records.
       Inr (t\<lparr>team_luck := entry ''luck'',
               team_weekly_overall_record := entry ''luck_record'',
               team_record := records (team_id t)\<rparr>))))"

text \<open>
  The statements after the roster loop, in the order of the source. The log is returned
  beside the result: a warning that was written stays written when a later statement
  raises.
\<close>

definition team_totals ::
  "config \<Rightarrow> pyval \<Rightarrow> pyval \<Rightarrow> 'x metrics \<Rightarrow> bool \<Rightarrow> string list \<Rightarrow> string list \<Rightarrow>
   'x team \<Rightarrow> error + 'x team" where
  "team_totals cfg week_counter season_v metrics dq_ce inactive_players bench t =
     and_then (team_covid cfg season_v bench (team_beef cfg bench (team_bad_boy cfg bench
        (team_bench bench t)))) (\<lambda>t'.
     and_then (team_coaching metrics week_counter dq_ce inactive_players
        (team_positions bench t')) (\<lambda>t''.
     team_luck_record metrics t''))"

definition add_report_team_stats ::
  "config \<Rightarrow> 'x team \<Rightarrow> league \<Rightarrow> pyval \<Rightarrow> pyval \<Rightarrow> metrics_calculator \<Rightarrow> 'x metrics \<Rightarrow>
   bool \<Rightarrow> string list \<Rightarrow> log_entry list \<times> (error + 'x team)" where
  "add_report_team_stats cfg t lg week_counter season_v calc metrics dq_ce inactive_players =
     (let t0 = t\<lparr>team_name := decode_byte_string calc (team_name t)\<rparr>;
          bench = bench_positions lg
      in case enrich_roster cfg season_v metrics (team_roster t0) bench of
           Inl e \<Rightarrow> ([], Inl e)
         | Inr roster' \<Rightarrow>
             (let t1 = t0\<lparr>team_roster := roster'\<rparr>
              in (points_check bench t1,
                  team_totals cfg week_counter season_v metrics dq_ce inactive_players bench t1)))"

section \<open>\<^verbatim>\<open>user_week_input_validation\<close>\<close>

text \<open>
  \<^verbatim>\<open>input(prompt)\<close> reads the next line the user supplies. The console holds the answers
  still to be read and the prompts printed so far; with no answer left, \<^verbatim>\<open>input\<close> raises
  \<^verbatim>\<open>EOFError\<close>.
\<close>

datatype prompt = First_week_incomplete | Incomplete_week

record console =
  answers :: "string list"
  prompts :: "prompt list"

definition input :: "prompt \<Rightarrow> console \<Rightarrow> (error + string) \<times> console" where
  "input q con =
     (case answers con of
        [] \<Rightarrow> (Inl EOFError, con\<lparr>prompts := prompts con @ [q]\<rparr>)
      | a # rest \<Rightarrow> (Inr a, con\<lparr>answers := rest, prompts := prompts con @ [q]\<rparr>))"

definition NFL_SEASON_LENGTH :: int where
  "NFL_SEASON_LENGTH = 18"

definition chosen_week_error :: error where
  "chosen_week_error =
     ValueError (''You must select either '' @ [dq] @ ''default'' @ [dq] @
       '' or an integer from 1 to '' @ str_of_int NFL_SEASON_LENGTH @ '' for the chosen week.'')"

definition not_recommended_error :: error where
  "not_recommended_error =
     ValueError ''It is recommended that you NOT generate a report for an incomplete week.''"

definition only_y_or_n_error :: error where
  "only_y_or_n_error =
     ValueError (''Please only select '' @ [dq] @ ''y'' @ [dq] @ '' or '' @ [dq] @ ''n'' @ [dq] @
       ''. Try running the report generator again.'')"

text \<open>The confirmation for an incomplete week: \<^verbatim>\<open>y\<close> keeps the week, anything else raises.\<close>

definition confirm :: "prompt \<Rightarrow> pyval \<Rightarrow> console \<Rightarrow> (error + pyval) \<times> console" where
  "confirm q wk con =
     (case input q con of
        (Inl e, con') \<Rightarrow> (Inl e, con')
      | (Inr a, con') \<Rightarrow>
          (if a = ''y'' then (Inr wk, con')
           else if a = ''n'' then (Inl not_recommended_error, con')
           else (Inl only_y_or_n_error, con')))"

text \<open>The body of the \<^verbatim>\<open>try\<close> block: it yields the new value of \<^verbatim>\<open>week_for_report\<close>.\<close>

definition validate_week :: "pyval \<Rightarrow> pyval \<Rightarrow> console \<Rightarrow> (error + pyval) \<times> console" where
  "validate_week wfr current_week con =
     (if wfr = PStr ''default'' then
        (case py_int current_week of
           Inl e \<Rightarrow> (Inl e, con)
         | Inr cw \<Rightarrow>
             (if 0 < cw - 1 then (Inr (PStr (str_of_int (cw - 1))), con)
              else confirm First_week_incomplete current_week con))
      else
        (case py_int wfr of
           Inl e \<Rightarrow> (Inl e, con)
         | Inr w \<Rightarrow>
             (if 0 < w \<and> w \<le> NFL_SEASON_LENGTH then
                (case py_int current_week of
                   Inl e \<Rightarrow> (Inl e, con)
                 | Inr cw \<Rightarrow>
                     (if 0 < w \<and> w \<le> cw - 1 then (Inr wfr, con)
                      else confirm Incomplete_week wfr con))
              else (Inl chosen_week_error, con))))"

text \<open>\<^verbatim>\<open>except ValueError: raise ValueError(...)\<close>: any other exception passes through.\<close>

definition except_ValueError :: "error + 'a \<Rightarrow> error + 'a" where
  "except_ValueError r =
     (case r of
        Inl (ValueError m) \<Rightarrow> Inl chosen_week_error
      | Inl e \<Rightarrow> Inl e
      | Inr v \<Rightarrow> Inr v)"

text \<open>
  \<^verbatim>\<open>current_year\<close> and \<^verbatim>\<open>current_month\<close> are module globals, set once from
  \<^verbatim>\<open>datetime.today()\<close> when the module is imported: they are parameters here.
\<close>

definition validates :: "int \<Rightarrow> int \<Rightarrow> int \<Rightarrow> bool" where
  "validates current_year current_month s =
     (current_year = s \<or> (current_year = s + 1 \<and> current_month < 9))"

text \<open>\<^verbatim>\<open>if week: week_for_report = week else: week_for_report = config.get(...)\<close>\<close>

definition requested_week :: "config \<Rightarrow> pyval \<Rightarrow> pyval" where
  "requested_week cfg week = (if truthy week then week else PStr (week_for_report cfg))"

definition user_week_input_validation ::
  "int \<Rightarrow> int \<Rightarrow> config \<Rightarrow> pyval \<Rightarrow> pyval \<Rightarrow> pyval \<Rightarrow> console \<Rightarrow> (error + int) \<times> console" where
  "user_week_input_validation current_year current_month cfg week retrieved_current_week season_v con =
     (let wfr = requested_week cfg week
      in case py_int season_v of
           Inl e \<Rightarrow> (Inl e, con)
         | Inr s \<Rightarrow>
             (if validates current_year current_month s then
                (case validate_week wfr retrieved_current_week con of
                   (r, con') \<Rightarrow> (and_then (except_ValueError r) py_int, con'))
              else (py_int wfr, con)))"

section \<open>\<^verbatim>\<open>league_data_factory\<close>\<close>

text \<open>
  The four platform adapters (\<^verbatim>\<open>dao/platforms/*.py\<close>) are external. Each is a function
  from the arguments the factory hands to its constructor to the outcome of
  \<^verbatim>\<open>map_data_to_base(BaseLeague)\<close>, a league of any type \<open>'l\<close> or an exception.
  \<^verbatim>\<open>supported_platforms\<close> is the module global filled from the package directory.
\<close>

record yahoo_args =
  y_week_for_report :: pyval
  y_start_week :: pyval
  y_league_id :: pyval
  y_game_id :: pyval
  y_config :: config
  y_base_dir :: string
  y_data_dir :: string
  y_save_data :: bool
  y_offline :: bool

record season_args =
  s_week_for_report :: pyval
  s_league_id :: pyval
  s_season :: pyval
  s_start_week :: pyval
  s_config :: config
  s_data_dir :: string
  s_save_data :: bool
  s_offline :: bool

record espn_args = season_args +
  e_base_dir :: string

record 'l adapters =
  YahooLeagueData :: "yahoo_args \<Rightarrow> error + 'l"
  FleaflickerLeagueData :: "season_args \<Rightarrow> error + 'l"
  SleeperLeagueData :: "season_args \<Rightarrow> error + 'l"
  EspnLeagueData :: "espn_args \<Rightarrow> error + 'l"

definition run_aborted :: error where
  "run_aborted = SystemExit ''...run aborted.''"

definition league_data_factory ::
  "string list \<Rightarrow> 'l adapters \<Rightarrow> pyval \<Rightarrow> string \<Rightarrow> pyval \<Rightarrow> pyval \<Rightarrow> pyval \<Rightarrow> pyval \<Rightarrow> config \<Rightarrow>
   string \<Rightarrow> string \<Rightarrow> bool \<Rightarrow> bool \<Rightarrow> log_entry list \<times> (error + 'l option)" where
  "league_data_factory supported_platforms ad week platform lid game_id season_v start_week cfg
     base_dir ddir sv off =
     (if platform \<in> set supported_platforms then
        (if platform = ''yahoo'' then
           ([], map_sum id Some (YahooLeagueData ad
              \<lparr>y_week_for_report = week, y_start_week = start_week, y_league_id = lid,
               y_game_id = game_id, y_config = cfg, y_base_dir = base_dir, y_data_dir = ddir,
               y_save_data = sv, y_offline = off\<rparr>))
         else if platform = ''fleaflicker'' then
           ([], map_sum id Some (FleaflickerLeagueData ad
              \<lparr>s_week_for_report = week, s_league_id = lid, s_season = season_v,
               s_start_week = start_week, s_config = cfg, s_data_dir = ddir,
               s_save_data = sv, s_offline = off\<rparr>))
         else if platform = ''sleeper'' then
           ([], map_sum id Some (SleeperLeagueData ad
              \<lparr>s_week_for_report = week, s_league_id = lid, s_season = season_v,
               s_start_week = start_week, s_config = cfg, s_data_dir = ddir,
               s_save_data = sv, s_offline = off\<rparr>))
         else if platform = ''espn'' then
           ([], map_sum id Some (EspnLeagueData ad
              \<lparr>s_week_for_report = week, s_league_id = lid, s_season = season_v,
               s_start_week = start_week, s_config = cfg, s_data_dir = ddir,
               s_save_data = sv, s_offline = off, e_base_dir = base_dir\<rparr>))
         else ([], Inr None))
      else ([Error_platform_not_supported platform], Inl run_aborted))"

section \<open>\<^verbatim>\<open>get_player_game_time_statuses\<close>\<close>

text \<open>
  A path is the list of its components. The file system maps the path of a file to its
  text and knows which directories exist. The download and the HTML library are external:
  \<open>http_get\<close> gives the text of the response for the query parameters, \<open>parse_html\<close> is
  \<^verbatim>\<open>BeautifulSoup(text, "html.parser")\<close> and \<open>prettify\<close> its method of that name.
\<close>

record filesystem =
  files :: "string list \<rightharpoonup> string"
  dirs :: "string list set"

record 'soup html_tools =
  http_get :: "(string \<times> string) list \<Rightarrow> string"
  parse_html :: "string \<Rightarrow> 'soup"
  prettify :: "'soup \<Rightarrow> string"

definition status_file_dir :: "pyval \<Rightarrow> league \<Rightarrow> string list" where
  "status_file_dir week lg =
     [data_dir lg, py_str (season lg), py_str (league_id lg), ''week_'' @ py_str week]"

definition status_file_path :: "pyval \<Rightarrow> league \<Rightarrow> string list" where
  "status_file_path week lg =
     status_file_dir week lg @ [''week_'' @ py_str week @ ''-player_status_data.html'']"

definition save_status_file :: "'soup html_tools \<Rightarrow> pyval \<Rightarrow> league \<Rightarrow> 'soup \<Rightarrow> filesystem \<Rightarrow> filesystem" where
  "save_status_file tools week lg soup fs =
     (if save_data lg then
        (let fs1 = (if status_file_dir week lg \<notin> dirs fs \<and> files fs (status_file_dir week lg) = None
                    then fs\<lparr>dirs := insert (status_file_dir week lg) (dirs fs)\<rparr> else fs)
         in fs1\<lparr>files := (files fs1)(status_file_path week lg \<mapsto> prettify tools soup)\<rparr>)
      else fs)"

definition get_player_game_time_statuses ::
  "'soup html_tools \<Rightarrow> pyval \<Rightarrow> league \<Rightarrow> filesystem \<Rightarrow>
   log_entry list \<times> (error + 'soup) \<times> filesystem" where
  "get_player_game_time_statuses tools week lg fs =
     (if \<not> offline lg then
        (let soup = parse_html tools
                      (http_get tools [(''yr'', py_str (season lg)), (''wk'', py_str week),
                                       (''type'', ''reg'')])
         in ([], Inr soup, save_status_file tools week lg soup fs))
      else
        (case files fs (status_file_path week lg) of
           None \<Rightarrow> ([Error_file_does_not_exist (status_file_path week lg)], Inl run_aborted, fs)
         | Some text \<Rightarrow>
             ([], Inr (parse_html tools text),
              save_status_file tools week lg (parse_html tools text) fs)))"

section \<open>What one active player adds to the offender count\<close>


section \<open>Providers the enabled features need\<close>

text \<open>
  The player enrichment raises only when a provider it calls is absent from \<open>metrics\<close>
  or when \<^verbatim>\<open>int(season)\<close> fails. This is the condition under which neither happens,
  whatever the roster: the provider of every enabled feature is present, and the season is
  an integer when covid risk is enabled.
\<close>

definition providers_present :: "config \<Rightarrow> pyval \<Rightarrow> 'x metrics \<Rightarrow> bool" where
  "providers_present cfg season_v metrics =
     ((if league_bad_boy_rankings cfg then m_bad_boy_stats metrics \<noteq> None else True)
      \<and> (if league_beef_rankings cfg then m_beef_stats metrics \<noteq> None else True)
      \<and> (if league_covid_risk_rankings cfg
          then (case py_int season_v of
                  Inl e \<Rightarrow> False
                | Inr s \<Rightarrow> if 2020 \<le> s then m_covid_risk metrics \<noteq> None else True)
          else True))"

section \<open>Concrete inputs\<close>

text \<open>
  Providers that have an entry for every player, so that a benched player's neutral
  defaults are not an accident of the lookup: Al (5 points, one offender), Bo (12 points,
  three offenders) and Cy (9 points, two offenders) have bad-boy records.
\<close>

definition ex_bad_boy_stats :: bad_boy_stats where
  "ex_bad_boy_stats =
     \<lparr>get_player_bad_boy_crime = (\<lambda>f l t pos.
        if f = ''Al'' then ''Theft'' else if f = ''Bo'' then ''Assault''
        else if f = ''Cy'' then ''Fraud'' else []),
      get_player_bad_boy_points = (\<lambda>f l t pos.
        if f = ''Al'' then 5 else if f = ''Bo'' then 12 else if f = ''Cy'' then 9 else 0),
      get_player_bad_boy_num_offenders = (\<lambda>f l t pos.
        if f = ''Al'' then 1 else if f = ''Bo'' then 3 else if f = ''Cy'' then 2 else 0)\<rparr>"

definition ex_beef_stats :: beef_stats where
  "ex_beef_stats = \<lparr>get_player_weight = (\<lambda>f l t. 250), get_player_tabbu = (\<lambda>f l t. 1 / 2)\<rparr>"

definition ex_covid_risk :: covid_risk_provider where
  "ex_covid_risk = \<lparr>get_player_covid_risk = (\<lambda>n t pos. 7)\<rparr>"

definition ex_metrics :: "string metrics" where
  "ex_metrics =
     \<lparr>m_bad_boy_stats = Some ex_bad_boy_stats,
      m_beef_stats = Some ex_beef_stats,
      m_covid_risk = Some ex_covid_risk,
      m_coaching_efficiency = Some (\<lambda>nm roster pts pos wk inactive dqe. (''0.9'', 40)),
      m_luck = Some [''1'' \<mapsto> [''luck'' \<mapsto> ''2.5'', ''luck_record'' \<mapsto> ''7-2-0'']],
      m_records = Some [''1'' \<mapsto> ''1-0-0'']\<rparr>"

definition ex_config :: config where
  "ex_config =
     \<lparr>league_bad_boy_rankings = True, league_beef_rankings = True,
      league_covid_risk_rankings = True, week_for_report = ''default''\<rparr>"

text \<open>A player as an adapter delivers it; the enrichment fields hold values of an earlier run.\<close>

definition ex_player :: "string \<Rightarrow> string \<Rightarrow> real \<Rightarrow> player" where
  "ex_player nm pos pts =
     \<lparr>first_name = nm, last_name = ''Doe'', full_name = nm @ '' Doe'', nfl_team_abbr = ''GB'',
      primary_position = ''QB'', selected_position = pos, points = pts,
      bad_boy_crime = ''Old'', bad_boy_points = 3, bad_boy_num_offenders = 1, weight = 180,
      tabbu = 1, covid_risk = 4\<rparr>"

definition ex_team :: "player list \<Rightarrow> real \<Rightarrow> real \<Rightarrow> string team" where
  "ex_team roster pts hfa =
     \<lparr>team_id = ''1'', team_name = ''Team One'', team_roster = roster, team_points = pts,
      team_home_field_advantage = hfa, team_bench_points = 0, team_bad_boy_points = 0,
      team_worst_offense = None, team_num_offenders = 0, team_worst_offense_score = 0,
      team_total_weight = 0, team_tabbu = 0, team_total_covid_risk = 0,
      team_positions_filled_active = [], team_coaching_efficiency = [],
      team_optimal_points = 0, team_luck = None, team_weekly_overall_record = None,
      team_record = None\<rparr>"

definition ex_league :: league where
  "ex_league =
     \<lparr>data_dir = ''data'', season = PInt 2019, league_id = PStr ''12345'', offline = True,
      save_data = False, bench_positions = [''BN'', ''IR'']\<rparr>"

definition ex_calc :: metrics_calculator where
  "ex_calc = \<lparr>decode_byte_string = (\<lambda>s. s)\<rparr>"

definition ex_console :: console where
  "ex_console = \<lparr>answers = [''y''], prompts = []\<rparr>"

definition ex_adapters :: "string adapters" where
  "ex_adapters =
     \<lparr>YahooLeagueData = (\<lambda>a. Inr ''yahoo league''),
      FleaflickerLeagueData = (\<lambda>a. Inr ''fleaflicker league''),
      SleeperLeagueData = (\<lambda>a. Inr ''sleeper league''),
      EspnLeagueData = (\<lambda>a. Inr ''espn league'')\<rparr>"

definition ex_tools :: "string html_tools" where
  "ex_tools = \<lparr>http_get = (\<lambda>ps. ''<html></html>''), parse_html = (\<lambda>s. s), prettify = (\<lambda>s. s)\<rparr>"

definition ex_filesystem :: filesystem where
  "ex_filesystem = \<lparr>files = Map.empty, dirs = {}\<rparr>"

section \<open>Builtins\<close>

lemma and_then_Inr:
  "and_then r f = Inr y \<longleftrightarrow> (\<exists>x. r = Inr x \<and> f x = Inr y)"
  by (cases r) (simp_all add: and_then_def)

lemma and_then_simps [simp]:
  "and_then (Inl e) f = Inl e" "and_then (Inr v) f = f v"
  by (simp_all add: and_then_def)

lemma foldl_add_sum_list: "foldl (+) a xs = a + sum_list (xs :: 'a::monoid_add list)"
  by (induction xs arbitrary: a) (simp_all add: add.assoc)

lemma py_sum_sum_list: "py_sum xs = sum_list xs"
  by (simp add: py_sum_def foldl_add_sum_list)

section \<open>Players\<close>

lemma player_bad_boy_keeps:
  assumes "player_bad_boy cfg metrics p = Inr p'"
  shows "points p' = points p" and "selected_position p' = selected_position p"
    and "covid_risk p' = covid_risk p"
  using assms by (auto simp: player_bad_boy_def and_then_Inr split: if_splits)

lemma player_beef_keeps:
  assumes "player_beef cfg metrics p = Inr p'"
  shows "points p' = points p" and "selected_position p' = selected_position p"
    and "covid_risk p' = covid_risk p"
  using assms by (auto simp: player_beef_def and_then_Inr split: if_splits)

lemma player_covid_keeps:
  assumes "player_covid cfg season_v metrics p = Inr p'"
  shows "points p' = points p" and "selected_position p' = selected_position p"
  using assms by (auto simp: player_covid_def and_then_Inr split: if_splits)

lemma reset_player_position [simp]:
  "selected_position (reset_player p) = selected_position p"
  by (simp add: reset_player_def)

lemma reset_player_points [simp]:
  "points (reset_player p) = points p"
  by (simp add: reset_player_def)

lemma add_report_player_stats_keeps:
  assumes "add_report_player_stats cfg season_v metrics p bench = Inr p'"
  shows "points p' = points p" and "selected_position p' = selected_position p"
  using assms
  by (auto simp: add_report_player_stats_def Let_def and_then_Inr
      player_bad_boy_keeps player_beef_keeps player_covid_keeps split: if_splits)


lemma enrich_roster_active_points:
  "enrich_roster cfg season_v metrics ps bench = Inr ps' \<Longrightarrow>
     map points (active_players bench ps') = map points (active_players bench ps)"
proof (induction ps arbitrary: ps')
  case Nil
  then show ?case by simp
next
  case (Cons p ps)
  from Cons.prems obtain q qs where q: "add_report_player_stats cfg season_v metrics p bench = Inr q"
    and qs: "enrich_roster cfg season_v metrics ps bench = Inr qs" and ps': "ps' = q # qs"
    by (auto simp: and_then_Inr)
  from Cons.IH [OF qs] add_report_player_stats_keeps [OF q] ps'
  show ?case by (simp add: active_players_def)
qed

section \<open>Team stages\<close>

lemma bad_boy_step_keeps [simp]:
  "team_roster (bad_boy_step bench t p) = team_roster t"
  "team_points (bad_boy_step bench t p) = team_points t"
  "team_bench_points (bad_boy_step bench t p) = team_bench_points t"
  "team_total_covid_risk (bad_boy_step bench t p) = team_total_covid_risk t"
  by (simp_all add: bad_boy_step_def Let_def)

lemma foldl_bad_boy_step_keeps [simp]:
  "team_roster (foldl (bad_boy_step bench) t ps) = team_roster t"
  "team_points (foldl (bad_boy_step bench) t ps) = team_points t"
  "team_bench_points (foldl (bad_boy_step bench) t ps) = team_bench_points t"
  "team_total_covid_risk (foldl (bad_boy_step bench) t ps) = team_total_covid_risk t"
  by (induction ps arbitrary: t) simp_all

lemma team_bad_boy_keeps [simp]:
  "team_roster (team_bad_boy cfg bench t) = team_roster t"
  "team_points (team_bad_boy cfg bench t) = team_points t"
  "team_bench_points (team_bad_boy cfg bench t) = team_bench_points t"
  "team_total_covid_risk (team_bad_boy cfg bench t) = team_total_covid_risk t"
  by (simp_all add: team_bad_boy_def)

lemma team_beef_keeps [simp]:
  "team_roster (team_beef cfg bench t) = team_roster t"
  "team_points (team_beef cfg bench t) = team_points t"
  "team_bench_points (team_beef cfg bench t) = team_bench_points t"
  "team_total_covid_risk (team_beef cfg bench t) = team_total_covid_risk t"
  "team_bad_boy_points (team_beef cfg bench t) = team_bad_boy_points t"
  "team_num_offenders (team_beef cfg bench t) = team_num_offenders t"
  "team_worst_offense (team_beef cfg bench t) = team_worst_offense t"
  "team_worst_offense_score (team_beef cfg bench t) = team_worst_offense_score t"
  by (simp_all add: team_beef_def)

lemma team_bench_keeps [simp]:
  "team_roster (team_bench bench t) = team_roster t"
  "team_points (team_bench bench t) = team_points t"
  "team_total_covid_risk (team_bench bench t) = team_total_covid_risk t"
  by (simp_all add: team_bench_def)

lemma team_covid_keeps:
  assumes "team_covid cfg season_v bench t = Inr t'"
  shows "team_roster t' = team_roster t" and "team_points t' = team_points t"
    and "team_bench_points t' = team_bench_points t"
    and "team_bad_boy_points t' = team_bad_boy_points t"
    and "team_num_offenders t' = team_num_offenders t"
    and "team_worst_offense t' = team_worst_offense t"
    and "team_worst_offense_score t' = team_worst_offense_score t"
  using assms by (auto simp: team_covid_def and_then_Inr split: if_splits)

lemma team_positions_keeps [simp]:
  "team_roster (team_positions bench t) = team_roster t"
  "team_points (team_positions bench t) = team_points t"
  "team_bench_points (team_positions bench t) = team_bench_points t"
  "team_total_covid_risk (team_positions bench t) = team_total_covid_risk t"
  "team_bad_boy_points (team_positions bench t) = team_bad_boy_points t"
  "team_num_offenders (team_positions bench t) = team_num_offenders t"
  "team_worst_offense (team_positions bench t) = team_worst_offense t"
  "team_worst_offense_score (team_positions bench t) = team_worst_offense_score t"
  by (simp_all add: team_positions_def)

lemma team_coaching_keeps:
  assumes "team_coaching metrics week_counter dq_ce inactive t = Inr t'"
  shows "team_roster t' = team_roster t" and "team_points t' = team_points t"
    and "team_bench_points t' = team_bench_points t"
    and "team_total_covid_risk t' = team_total_covid_risk t"
    and "team_bad_boy_points t' = team_bad_boy_points t"
    and "team_num_offenders t' = team_num_offenders t"
    and "team_worst_offense t' = team_worst_offense t"
    and "team_worst_offense_score t' = team_worst_offense_score t"
  using assms by (auto simp: team_coaching_def and_then_Inr case_prod_beta)

lemma team_luck_record_keeps:
  assumes "team_luck_record metrics t = Inr t'"
  shows "team_roster t' = team_roster t" and "team_points t' = team_points t"
    and "team_bench_points t' = team_bench_points t"
    and "team_total_covid_risk t' = team_total_covid_risk t"
    and "team_bad_boy_points t' = team_bad_boy_points t"
    and "team_num_offenders t' = team_num_offenders t"
    and "team_worst_offense t' = team_worst_offense t"
    and "team_worst_offense_score t' = team_worst_offense_score t"
  using assms by (auto simp: team_luck_record_def and_then_Inr)

text \<open>What \<open>team_totals\<close> leaves in the fields the later statements do not write.\<close>

lemma team_totals_stages:
  assumes "team_totals cfg week_counter season_v metrics dq_ce inactive bench t = Inr t'"
  obtains u where
    "team_covid cfg season_v bench (team_beef cfg bench (team_bad_boy cfg bench (team_bench bench t))) = Inr u"
    and "team_roster t' = team_roster u" and "team_points t' = team_points u"
    and "team_bench_points t' = team_bench_points u"
    and "team_total_covid_risk t' = team_total_covid_risk u"
    and "team_bad_boy_points t' = team_bad_boy_points u"
    and "team_num_offenders t' = team_num_offenders u"
    and "team_worst_offense t' = team_worst_offense u"
    and "team_worst_offense_score t' = team_worst_offense_score u"
proof -
  from assms obtain u v where u: "team_covid cfg season_v bench (team_beef cfg bench (team_bad_boy cfg bench (team_bench bench t))) = Inr u"
    and v: "team_coaching metrics week_counter dq_ce inactive (team_positions bench u) = Inr v"
    and t': "team_luck_record metrics v = Inr t'"
    unfolding team_totals_def and_then_Inr by blast
  show thesis
    using u team_coaching_keeps [OF v] team_luck_record_keeps [OF t']
    by (intro that [of u]) simp_all
qed

lemma add_report_team_stats_Inr:
  assumes "add_report_team_stats cfg t lg week_counter season_v calc metrics dq_ce inactive = (msgs, Inr t')"
  obtains roster' where
    "enrich_roster cfg season_v metrics (team_roster t) (bench_positions lg) = Inr roster'"
    and "msgs = points_check (bench_positions lg)
                 (t\<lparr>team_name := decode_byte_string calc (team_name t), team_roster := roster'\<rparr>)"
    and "team_totals cfg week_counter season_v metrics dq_ce inactive (bench_positions lg)
           (t\<lparr>team_name := decode_byte_string calc (team_name t), team_roster := roster'\<rparr>) = Inr t'"
  using assms
  by (auto simp: add_report_team_stats_def Let_def split: sum.splits)

section \<open>When the enrichment returns\<close>

text \<open>
  With the providers of the enabled features present, the coaching efficiency evaluator
  and the team's luck entry at hand and a week counter that is an integer, the enrichment
  returns a team.
\<close>

lemma bad_boy_step_id [simp]:
  "team_id (bad_boy_step bench t p) = team_id t"
  by (simp add: bad_boy_step_def Let_def)

lemma foldl_bad_boy_step_id [simp]:
  "team_id (foldl (bad_boy_step bench) t ps) = team_id t"
  by (induction ps arbitrary: t) simp_all

lemma add_report_player_stats_returns:
  assumes "providers_present cfg season_v metrics"
  shows "\<exists>p'. add_report_player_stats cfg season_v metrics p bench = Inr p'"
  using assms
  by (auto simp: providers_present_def add_report_player_stats_def Let_def player_bad_boy_def
      player_beef_def player_covid_def covid_gate_def provider_def
      split: if_splits sum.splits)

lemma enrich_roster_returns:
  assumes "providers_present cfg season_v metrics"
  shows "\<exists>ps'. enrich_roster cfg season_v metrics ps bench = Inr ps'"
proof (induction ps)
  case Nil
  show ?case by simp
next
  case (Cons p ps)
  from add_report_player_stats_returns [OF assms] obtain p'
    where "add_report_player_stats cfg season_v metrics p bench = Inr p'"
    by blast
  with Cons show ?case
    by auto
qed

lemma team_covid_returns:
  assumes "providers_present cfg season_v metrics"
  shows "\<exists>t'. team_covid cfg season_v bench t = Inr t'"
  using assms
  by (auto simp: providers_present_def team_covid_def covid_gate_def split: if_splits sum.splits)

lemma add_report_team_stats_returns:
  assumes "providers_present cfg season_v metrics"
    and "m_coaching_efficiency metrics = Some ce"
    and "py_int week_counter = Inr wk"
    and "m_luck metrics = Some luck"
    and "luck (team_id t) = Some entry"
    and "m_records metrics = Some records"
  shows "\<exists>msgs t'. add_report_team_stats cfg t lg week_counter season_v calc metrics dq_ce inactive
           = (msgs, Inr t')"
proof -
  from enrich_roster_returns [OF assms(1)] obtain roster'
    where r: "enrich_roster cfg season_v metrics (team_roster t) (bench_positions lg) = Inr roster'"
    by blast
  let ?t1 = "t\<lparr>team_name := decode_byte_string calc (team_name t), team_roster := roster'\<rparr>"
  from team_covid_returns [OF assms(1)] obtain u
    where u: "team_covid cfg season_v (bench_positions lg)
          (team_beef cfg (bench_positions lg) (team_bad_boy cfg (bench_positions lg)
            (team_bench (bench_positions lg) ?t1))) = Inr u"
    by blast
  from assms(2,3) obtain v
    where v: "team_coaching metrics week_counter dq_ce inactive
                (team_positions (bench_positions lg) u) = Inr v"
    by (simp add: team_coaching_def provider_def case_prod_beta)
  then have id: "team_id v = team_id t"
    using u
    by (auto simp: team_coaching_def team_positions_def team_covid_def team_beef_def
        team_bad_boy_def team_bench_def and_then_Inr case_prod_beta foldl_bad_boy_step_id
        split: if_splits)
  from assms(4,5,6) id obtain w where w: "team_luck_record metrics v = Inr w"
    by (simp add: team_luck_record_def provider_def)
  from u v w have "team_totals cfg week_counter season_v metrics dq_ce inactive (bench_positions lg) ?t1
      = Inr w"
    by (simp add: team_totals_def)
  with r show ?thesis
    by (simp add: add_report_team_stats_def Let_def)
qed

lemmas player_defs =
  add_report_player_stats_def reset_player_def player_bad_boy_def player_beef_def
  player_covid_def covid_gate_def provider_def

lemmas team_defs =
  add_report_team_stats_def team_totals_def team_bench_def team_bad_boy_def bad_boy_step_def
  team_beef_def team_covid_def team_positions_def team_coaching_def team_luck_record_def
  points_check_def starting_lineup_points_def active_players_def bench_players_def

lemmas rounding_defs = py_round2_def round_half_even_def py_sum_def

lemmas ex_defs =
  ex_bad_boy_stats_def ex_beef_stats_def ex_covid_risk_def ex_metrics_def ex_config_def
  ex_player_def ex_team_def ex_league_def ex_calc_def

section \<open>Bench points and benched players\<close>

lemma ex_lineup_returns:
  "\<exists>t'. add_report_team_stats ex_config
          (ex_team [ex_player ''Di'' ''QB'' 12.5, ex_player ''Ed'' ''BN'' 30] 12.5 0)
          ex_league (PInt 1) (PInt 2019) ex_calc ex_metrics False [] = ([], Inr t')"
  by (simp add: team_defs player_defs rounding_defs ex_defs Let_def)



text \<open>
  Claim C2. A player whose selected position is one of the league's bench positions
  comes out of \<open>add_report_player_stats\<close> with every enrichment field at its neutral
  default (empty crime, 0 bad-boy points, 0 offenders, weight 0.0, TABBU 0.0, covid risk
  0), whatever the toggles, the season, the providers in \<open>metrics\<close> and the values the
  fields held before. No provider is consulted, so the call cannot raise either.
\<close>

theorem benched_player_keeps_defaults:
  assumes "selected_position p \<in> set bench"
  shows "\<exists>p'. add_report_player_stats cfg season_v metrics p bench = Inr p'
           \<and> bad_boy_crime p' = [] \<and> bad_boy_points p' = 0 \<and> bad_boy_num_offenders p' = 0
           \<and> weight p' = 0 \<and> tabbu p' = 0 \<and> covid_risk p' = 0"
  using assms by (simp add: add_report_player_stats_def Let_def reset_player_def)

theorem benched_player_keeps_defaults_witness:
  "selected_position (ex_player ''Cy'' ''BN'' 3) \<in> set (bench_positions ex_league)
   \<and> get_player_bad_boy_points ex_bad_boy_stats ''Cy'' ''Doe'' ''GB'' ''QB'' = 9
   \<and> (\<exists>p'. add_report_player_stats ex_config (PInt 2021) ex_metrics (ex_player ''Cy'' ''BN'' 3)
              (bench_positions ex_league) = Inr p'
           \<and> bad_boy_crime p' = [] \<and> bad_boy_points p' = 0 \<and> bad_boy_num_offenders p' = 0
           \<and> weight p' = 0 \<and> tabbu p' = 0 \<and> covid_risk p' = 0)"
proof -
  have b: "selected_position (ex_player ''Cy'' ''BN'' 3) \<in> set (bench_positions ex_league)"
    by (simp add: ex_player_def ex_league_def)
  from b benched_player_keeps_defaults [OF b, of ex_config "PInt 2021" ex_metrics]
  show ?thesis by (simp add: ex_bad_boy_stats_def)
qed

section \<open>Adapter selection\<close>

text \<open>
  Claim C5. For a platform name that is not among the supported platforms,
  \<open>league_data_factory\<close> logs the error and ends the process with
  \<^verbatim>\<open>sys.exit("...run aborted.")\<close>, whatever the adapters and the other arguments are: no
  adapter is run, so there is no fallback to some default platform, and no league, whole
  or partial, is returned.
\<close>

theorem unsupported_platform_aborts:
  assumes "platform \<notin> set supported_platforms"
  shows "league_data_factory supported_platforms ad week platform lid game_id season_v start_week
           cfg base_dir ddir sv off
         = ([Error_platform_not_supported platform], Inl (SystemExit ''...run aborted.''))"
  using assms by (simp add: league_data_factory_def run_aborted_def)

theorem unsupported_platform_aborts_witness:
  "''cbs'' \<notin> set [''espn'', ''fleaflicker'', ''sleeper'', ''yahoo'']
   \<and> league_data_factory [''espn'', ''fleaflicker'', ''sleeper'', ''yahoo''] ex_adapters (PInt 3)
        ''cbs'' (PStr ''12345'') PNone (PInt 2021) (PInt 1) ex_config ''.'' ''data'' False False
      = ([Error_platform_not_supported ''cbs''], Inl (SystemExit ''...run aborted.''))"
proof -
  have n: "''cbs'' \<notin> set [''espn'', ''fleaflicker'', ''sleeper'', ''yahoo'']"
    by simp
  from n unsupported_platform_aborts [OF n] show ?thesis
    by blast
qed

text \<open>
  Claim C10. For a platform name that is among the supported platforms but is none of
  \<^verbatim>\<open>yahoo\<close>, \<^verbatim>\<open>fleaflicker\<close>, \<^verbatim>\<open>sleeper\<close>, \<^verbatim>\<open>espn\<close>, no branch of the \<^verbatim>\<open>if\<close> chain
  is taken and the function ends without a \<^verbatim>\<open>return\<close>: the result is \<^verbatim>\<open>None\<close>, nothing is
  logged, no adapter is run and the process is not ended.
\<close>

theorem unhandled_supported_platform_returns_None:
  assumes "platform \<in> set supported_platforms"
    and "platform \<notin> {''yahoo'', ''fleaflicker'', ''sleeper'', ''espn''}"
  shows "league_data_factory supported_platforms ad week platform lid game_id season_v start_week
           cfg base_dir ddir sv off
         = ([], Inr None)"
  using assms by (simp add: league_data_factory_def)

theorem unhandled_supported_platform_returns_None_witness:
  "''cbs'' \<in> set [''cbs'', ''espn'', ''fleaflicker'', ''sleeper'', ''yahoo'']
   \<and> ''cbs'' \<notin> {''yahoo'', ''fleaflicker'', ''sleeper'', ''espn''}
   \<and> league_data_factory [''cbs'', ''espn'', ''fleaflicker'', ''sleeper'', ''yahoo''] ex_adapters
        (PInt 3) ''cbs'' (PStr ''12345'') PNone (PInt 2021) (PInt 1) ex_config ''.'' ''data''
        False False
      = ([], Inr None)"
proof -
  have m: "''cbs'' \<in> set [''cbs'', ''espn'', ''fleaflicker'', ''sleeper'', ''yahoo'']"
    by simp
  have n: "''cbs'' \<notin> {''yahoo'', ''fleaflicker'', ''sleeper'', ''espn''}"
    by simp
  from m n unhandled_supported_platform_returns_None [OF m n] show ?thesis
    by blast
qed

section \<open>Offline fixture\<close>

text \<open>
  Claim C9. In offline mode, when the cached file of the week's player statuses does not
  exist, \<open>get_player_game_time_statuses\<close> logs the error and ends the process with
  \<^verbatim>\<open>sys.exit("...run aborted.")\<close>: no document, empty or partial, is returned and the file
  system is left as it was.
\<close>

theorem missing_offline_fixture_aborts:
  assumes "offline lg"
    and "files fs (status_file_path week lg) = None"
  shows "get_player_game_time_statuses tools week lg fs
         = ([Error_file_does_not_exist (status_file_path week lg)],
            Inl (SystemExit ''...run aborted.''), fs)"
  using assms by (simp add: get_player_game_time_statuses_def run_aborted_def)

theorem missing_offline_fixture_aborts_witness:
  "offline ex_league
   \<and> files ex_filesystem (status_file_path (PInt 3) ex_league) = None
   \<and> status_file_path (PInt 3) ex_league
       = [''data'', ''2019'', ''12345'', ''week_3'', ''week_3-player_status_data.html'']
   \<and> get_player_game_time_statuses ex_tools (PInt 3) ex_league ex_filesystem
       = ([Error_file_does_not_exist
             [''data'', ''2019'', ''12345'', ''week_3'', ''week_3-player_status_data.html'']],
          Inl (SystemExit ''...run aborted.''), ex_filesystem)"
proof -
  have o: "offline ex_league"
    by (simp add: ex_league_def)
  have f: "files ex_filesystem (status_file_path (PInt 3) ex_league) = None"
    by (simp add: ex_filesystem_def)
  have "str_of_int 2019 = ''2019''"
    by code_simp
  moreover have "str_of_int 3 = ''3''"
    by code_simp
  ultimately have p: "status_file_path (PInt 3) ex_league
       = [''data'', ''2019'', ''12345'', ''week_3'', ''week_3-player_status_data.html'']"
    by (simp add: status_file_path_def status_file_dir_def ex_league_def)
  from o f p missing_offline_fixture_aborts [OF o f, of ex_tools] show ?thesis
    by simp
qed

section \<open>The covid-risk gate\<close>

lemma covid_gate_closed:
  assumes "\<not> league_covid_risk_rankings cfg \<or> (\<exists>s. py_int season_v = Inr s \<and> s < 2020)"
  shows "covid_gate cfg season_v = Inr False"
  using assms by (auto simp: covid_gate_def)

lemma add_report_player_stats_covid_default:
  assumes "covid_gate cfg season_v = Inr False"
    and "add_report_player_stats cfg season_v metrics p bench = Inr p'"
  shows "covid_risk p' = 0"
proof (cases "selected_position p \<in> set bench")
  case True
  with assms(2) show ?thesis
    by (auto simp: add_report_player_stats_def Let_def reset_player_def)
next
  case False
  with assms(2) obtain p1 p2 where
    p1: "player_bad_boy cfg metrics (reset_player p) = Inr p1"
    and p2: "player_beef cfg metrics p1 = Inr p2"
    and p': "player_covid cfg season_v metrics p2 = Inr p'"
    by (auto simp: add_report_player_stats_def Let_def and_then_Inr)
  from p' assms(1) have "covid_risk p' = covid_risk p2"
    by (simp add: player_covid_def)
  with player_bad_boy_keeps(3) [OF p1] player_beef_keeps(3) [OF p2] show ?thesis
    by (simp add: reset_player_def)
qed

lemma enrich_roster_covid_default:
  assumes "covid_gate cfg season_v = Inr False"
  shows "enrich_roster cfg season_v metrics ps bench = Inr ps' \<Longrightarrow>
     \<forall>p \<in> set ps'. covid_risk p = 0"
proof (induction ps arbitrary: ps')
  case Nil
  then show ?case by simp
next
  case (Cons p ps)
  from Cons.prems obtain q qs where q: "add_report_player_stats cfg season_v metrics p bench = Inr q"
    and qs: "enrich_roster cfg season_v metrics ps bench = Inr qs" and ps': "ps' = q # qs"
    by (auto simp: and_then_Inr)
  from Cons.IH [OF qs] add_report_player_stats_covid_default [OF assms q] ps'
  show ?case by simp
qed

text \<open>
  Claim C7. Covid risk is applied only when the toggle \<open>league_covid_risk_rankings\<close> is
  on and the season is 2020 or later. With the toggle off, or with a season before 2020
  (2019, say, the toggle being on), a player that \<open>add_report_player_stats\<close> returns has
  covid risk 0, and a team that \<open>add_report_team_stats\<close> returns has covid risk 0 for
  every player of its roster and its \<open>total_covid_risk\<close> as it was before the call: the
  attribute is not written.
\<close>

theorem covid_risk_gated_by_toggle_and_season:
  assumes "\<not> league_covid_risk_rankings cfg \<or> (\<exists>s. py_int season_v = Inr s \<and> s < 2020)"
  shows "(add_report_player_stats cfg season_v metrics p bench = Inr p' \<longrightarrow> covid_risk p' = 0)
       \<and> (add_report_team_stats cfg t lg week_counter season_v calc metrics dq_ce inactive
            = (msgs, Inr t') \<longrightarrow>
          (\<forall>q \<in> set (team_roster t'). covid_risk q = 0)
          \<and> team_total_covid_risk t' = team_total_covid_risk t)"
proof (intro conjI impI)
  note gate = covid_gate_closed [OF assms]
  show "covid_risk p' = 0" if "add_report_player_stats cfg season_v metrics p bench = Inr p'"
    using gate that by (rule add_report_player_stats_covid_default)
  assume run: "add_report_team_stats cfg t lg week_counter season_v calc metrics dq_ce inactive
            = (msgs, Inr t')"
  then obtain roster' where
    r: "enrich_roster cfg season_v metrics (team_roster t) (bench_positions lg) = Inr roster'"
    and tot: "team_totals cfg week_counter season_v metrics dq_ce inactive (bench_positions lg)
           (t\<lparr>team_name := decode_byte_string calc (team_name t), team_roster := roster'\<rparr>) = Inr t'"
    by (rule add_report_team_stats_Inr)
  from tot obtain u where
    u: "team_covid cfg season_v (bench_positions lg)
          (team_beef cfg (bench_positions lg) (team_bad_boy cfg (bench_positions lg)
            (team_bench (bench_positions lg)
              (t\<lparr>team_name := decode_byte_string calc (team_name t), team_roster := roster'\<rparr>)))) = Inr u"
    and t'u: "team_roster t' = team_roster u" "team_total_covid_risk t' = team_total_covid_risk u"
    by (rule team_totals_stages)
  from u gate have "u = team_beef cfg (bench_positions lg) (team_bad_boy cfg (bench_positions lg)
            (team_bench (bench_positions lg)
              (t\<lparr>team_name := decode_byte_string calc (team_name t), team_roster := roster'\<rparr>)))"
    by (simp add: team_covid_def)
  with t'u have "team_roster t' = roster'" and "team_total_covid_risk t' = team_total_covid_risk t"
    by simp_all
  with enrich_roster_covid_default [OF gate r]
  show "\<forall>q \<in> set (team_roster t'). covid_risk q = 0"
    and "team_total_covid_risk t' = team_total_covid_risk t"
    by simp_all
qed

theorem covid_risk_gated_by_toggle_and_season_witness:
  "league_covid_risk_rankings ex_config
   \<and> py_int (PInt 2019) = Inr 2019
   \<and> (\<exists>p'. add_report_player_stats ex_config (PInt 2019) ex_metrics (ex_player ''Di'' ''QB'' 12.5)
              (bench_positions ex_league) = Inr p' \<and> covid_risk p' = 0)
   \<and> (\<exists>t'. add_report_team_stats ex_config
              (ex_team [ex_player ''Di'' ''QB'' 12.5, ex_player ''Ed'' ''BN'' 30] 12.5 0)
              ex_league (PInt 1) (PInt 2019) ex_calc ex_metrics False [] = ([], Inr t')
          \<and> (\<forall>q \<in> set (team_roster t'). covid_risk q = 0)
          \<and> team_total_covid_risk t' = 0)"
proof -
  have g: "\<not> league_covid_risk_rankings ex_config \<or> (\<exists>s. py_int (PInt 2019) = Inr s \<and> s < 2020)"
    by simp
  note c7 = covid_risk_gated_by_toggle_and_season [OF g]
  have "\<exists>p'. add_report_player_stats ex_config (PInt 2019) ex_metrics (ex_player ''Di'' ''QB'' 12.5)
              (bench_positions ex_league) = Inr p'"
    by (simp add: player_defs ex_defs)
  then obtain p' where p': "add_report_player_stats ex_config (PInt 2019) ex_metrics
      (ex_player ''Di'' ''QB'' 12.5) (bench_positions ex_league) = Inr p'"
    by blast
  with c7 have 1: "covid_risk p' = 0"
    by blast
  from ex_lineup_returns obtain t' where
    run: "add_report_team_stats ex_config
          (ex_team [ex_player ''Di'' ''QB'' 12.5, ex_player ''Ed'' ''BN'' 30] 12.5 0)
          ex_league (PInt 1) (PInt 2019) ex_calc ex_metrics False [] = ([], Inr t')"
    by blast
  with c7 have 2: "(\<forall>q \<in> set (team_roster t'). covid_risk q = 0)
      \<and> team_total_covid_risk t' = team_total_covid_risk
          (ex_team [ex_player ''Di'' ''QB'' 12.5, ex_player ''Ed'' ''BN'' 30] 12.5 0)"
    by blast
  have 3: "league_covid_risk_rankings ex_config"
    by (simp add: ex_config_def)
  from 1 2 3 p' run show ?thesis
    by (auto simp: ex_team_def)
qed

section \<open>The bad-boy loop\<close>













section \<open>Week validation\<close>

lemmas week_defs =
  user_week_input_validation_def requested_week_def validates_def validate_week_def confirm_def
  input_def except_ValueError_def NFL_SEASON_LENGTH_def

lemmas int_defs = int_of_str_def strip_def is_space_def is_digit_def digit_val_def






text \<open>
  Claim C6, as the code has it. For a season that is neither the current year nor the
  year before it while the month is before September, nothing is validated and nothing
  is asked: the requested week (the argument, or the configured \<^verbatim>\<open>week_for_report\<close>
  when the argument is empty) is converted with \<^verbatim>\<open>int\<close> and returned, also when it
  lies outside 1 to 18. That holds for every requested week that is an integer or a
  string denoting one.
\<close>

theorem historical_season_week_as_is:
  assumes "py_int season_v = Inr s"
    and "\<not> validates current_year current_month s"
    and "py_int (requested_week cfg week) = Inr n"
  shows "user_week_input_validation current_year current_month cfg week retrieved_current_week
           season_v con
         = (Inr n, con)"
  using assms by (simp add: user_week_input_validation_def Let_def)

theorem historical_season_week_as_is_witness:
  "py_int (PStr ''2015'') = Inr 2015
   \<and> \<not> validates 2026 11 2015
   \<and> py_int (requested_week ex_config (PInt 25)) = Inr 25
   \<and> user_week_input_validation 2026 11 ex_config (PInt 25) (PInt 5) (PStr ''2015'') ex_console
       = (Inr 25, ex_console)"
proof -
  have s: "py_int (PStr ''2015'') = Inr 2015"
    by (simp add: int_defs)
  have v: "\<not> validates 2026 11 2015"
    by (simp add: validates_def)
  have w: "py_int (requested_week ex_config (PInt 25)) = Inr 25"
    by (simp add: requested_week_def)
  from s v w historical_season_week_as_is [OF s v w] show ?thesis
    by blast
qed

text \<open>
  The sentinel \<^verbatim>\<open>default\<close> is not such a week: for the season 2015, run in November
  2026, \<^verbatim>\<open>int("default")\<close> raises \<^verbatim>\<open>ValueError\<close> and no week is returned, whether
  \<^verbatim>\<open>default\<close> is the argument or comes from the configuration.
\<close>

theorem historical_season_default_week_counterexample:
  "\<not> validates 2026 11 2015
   \<and> user_week_input_validation 2026 11 ex_config (PStr ''default'') (PInt 5) (PInt 2015) ex_console
       = (Inl (invalid_literal ''default''), ex_console)
   \<and> week_for_report ex_config = ''default''
   \<and> user_week_input_validation 2026 11 ex_config PNone (PInt 5) (PInt 2015) ex_console
       = (Inl (invalid_literal ''default''), ex_console)"
  by (simp add: week_defs int_defs ex_config_def)

section \<open>The check of the starting lineup points\<close>

text \<open>
  What the check compares, on the roster the team came with: the reported points rounded
  to two decimals against the rounded sum of the active players' points plus the home
  field advantage, which is added after the rounding and is not rounded itself. The
  warning does not touch the result: the team is returned with its reported points.
\<close>

lemma points_warning_condition:
  assumes "add_report_team_stats cfg t lg week_counter season_v calc metrics dq_ce inactive
             = (msgs, Inr t')"
  shows "msgs \<noteq> [] \<longleftrightarrow>
           py_round2 (team_points t)
             \<noteq> py_round2 (sum_list (map points (active_players (bench_positions lg) (team_roster t))))
                 + team_home_field_advantage t"
proof -
  from assms obtain roster' where
    r: "enrich_roster cfg season_v metrics (team_roster t) (bench_positions lg) = Inr roster'"
    and m: "msgs = points_check (bench_positions lg)
                 (t\<lparr>team_name := decode_byte_string calc (team_name t), team_roster := roster'\<rparr>)"
    by (rule add_report_team_stats_Inr)
  from m enrich_roster_active_points [OF r] show ?thesis
    by (simp add: points_check_def starting_lineup_points_def py_sum_sum_list)
qed

lemma points_warning_not_fatal:
  assumes "add_report_team_stats cfg t lg week_counter season_v calc metrics dq_ce inactive
             = (msgs, Inr t')"
  shows "team_points t' = team_points t"
proof -
  from assms obtain roster' where
    tot: "team_totals cfg week_counter season_v metrics dq_ce inactive (bench_positions lg)
           (t\<lparr>team_name := decode_byte_string calc (team_name t), team_roster := roster'\<rparr>) = Inr t'"
    by (rule add_report_team_stats_Inr)
  from tot obtain u where
    u: "team_covid cfg season_v (bench_positions lg)
          (team_beef cfg (bench_positions lg) (team_bad_boy cfg (bench_positions lg)
            (team_bench (bench_positions lg)
              (t\<lparr>team_name := decode_byte_string calc (team_name t), team_roster := roster'\<rparr>)))) = Inr u"
    and "team_points t' = team_points u"
    by (rule team_totals_stages)
  with team_covid_keeps(2) [OF u] show ?thesis
    by simp
qed

text \<open>
  The scenario of the specification with 20.0 reported against a lineup of 12.5: the
  warning is logged and the team is returned, its points still 20.0.
\<close>

lemma ex_mismatch_warns:
  "\<exists>t'. add_report_team_stats ex_config
          (ex_team [ex_player ''Di'' ''QB'' 12.5, ex_player ''Ed'' ''BN'' 30] 20 0)
          ex_league (PInt 1) (PInt 2019) ex_calc ex_metrics False []
        = ([Warning_points_not_equal ''Team One'' 20 12.5], Inr t')
       \<and> team_points t' = 20"
  by (simp add: team_defs player_defs rounding_defs ex_defs Let_def)

text \<open>
  Claim C4 asks for the warning exactly when the reported points and the recomputed
  lineup sum plus the home field advantage differ beyond two decimal places. With
  a lineup sum of 10.0 and a home field advantage of 0.125, reported points of 10.125 are
  the recomputed total exactly; the check compares 10.12 with 10.125 and the warning is
  logged. The team is returned all the same, its points unchanged.
\<close>

theorem points_check_warns_on_equal_totals:
  "team_points (ex_team [ex_player ''Di'' ''QB'' 10] 10.125 0.125)
     = sum_list (map points (active_players (bench_positions ex_league)
         (team_roster (ex_team [ex_player ''Di'' ''QB'' 10] 10.125 0.125))))
       + team_home_field_advantage (ex_team [ex_player ''Di'' ''QB'' 10] 10.125 0.125)
   \<and> (\<exists>t'. add_report_team_stats ex_config (ex_team [ex_player ''Di'' ''QB'' 10] 10.125 0.125)
              ex_league (PInt 1) (PInt 2019) ex_calc ex_metrics False []
            = ([Warning_points_not_equal ''Team One'' 10.12 10], Inr t')
          \<and> team_points t' = 10.125)"
  by (simp add: team_defs player_defs rounding_defs ex_defs Let_def)

end
